theory Spec2Isabelle
  imports Complex_Main
begin

section \<open>The trajectory engine of run.py\<close>

text \<open>
  The program computes with Python numbers and numpy arrays of doubles. The model takes
  every number as a \<^typ>\<open>real\<close> and every one-dimensional array as a \<^typ>\<open>real list\<close>:
  the arithmetic is exact, \<open>np.cos\<close>, \<open>np.sin\<close> and \<open>np.sqrt\<close> are the mathematical
  functions, and the rounding of the doubles is left out. The specification speaks of
  the engine in the same way, as a function of a real number.
\<close>

subsection \<open>The numpy operations the engine uses\<close>

text \<open>
  \<open>np.linspace(start, stop, num)\<close> with the default \<open>endpoint=True\<close>: the step is
  \<open>(stop - start) / (num - 1)\<close>, sample \<open>i\<close> is \<open>i * step + start\<close>, and for
  \<open>num > 1\<close> the last sample is overwritten with \<open>stop\<close>. For \<open>num = 1\<close> numpy
  has no step and returns \<open>[start]\<close>; here the step is \<open>x / 0 = 0\<close>, which gives the
  same list. A negative \<open>num\<close> (a ValueError in numpy) is excluded by the type.
\<close>

definition linspace :: "real \<Rightarrow> real \<Rightarrow> nat \<Rightarrow> real list" where
  "linspace start stop num =
     (let divisor = num - 1;
          delta = stop - start;
          step = delta / real divisor;
          y = map (\<lambda>i. real i * step + start) [0..<num]
      in if num > 1 then y[num - 1 := stop] else y)"

text \<open>Elementwise functions and the product of a scalar with an array.\<close>

definition np_cos :: "real list \<Rightarrow> real list" where
  "np_cos xs = map cos xs"

definition np_sin :: "real list \<Rightarrow> real list" where
  "np_sin xs = map sin xs"

definition scalar_times :: "real \<Rightarrow> real list \<Rightarrow> real list" where
  "scalar_times k xs = map (\<lambda>v. k * v) xs"

definition times_scalar :: "real list \<Rightarrow> real \<Rightarrow> real list" where
  "times_scalar xs k = map (\<lambda>v. v * k) xs"

subsection \<open>calculate_mission_state\<close>

type_synonym path = "real list \<times> real list \<times> real list"

type_synonym snapshot = "real \<times> real \<times> real \<times> real \<times> real"

definition calculate_mission_state :: "real \<Rightarrow> path \<times> path \<times> snapshot" where
  "calculate_mission_state error_pct =
     (let t_range = linspace 0 10 100;
          t_snapshot = (7.5 :: real);
          r_base = (7000 :: real);
          omega = (0.5 :: real);
          x_t = scalar_times r_base (np_cos (scalar_times omega t_range));
          y_t = scalar_times r_base (np_sin (scalar_times omega t_range));
          z_t = times_scalar t_range 100;
          r_err = r_base * (1 + error_pct / 100);
          x_e = scalar_times r_err (np_cos (scalar_times omega t_range));
          y_e = scalar_times r_err (np_sin (scalar_times omega t_range));
          z_e = z_t;
          snap_xt = r_base * cos (omega * t_snapshot);
          snap_yt = r_base * sin (omega * t_snapshot);
          snap_xe = r_err * cos (omega * t_snapshot);
          snap_ye = r_err * sin (omega * t_snapshot)
      in ((x_t, y_t, z_t), (x_e, y_e, z_e), (snap_xt, snap_yt, snap_xe, snap_ye, r_err)))"

subsection \<open>The caller: unpacking the result, the drift and its status label\<close>

text \<open>
  \<open>paths_t, paths_e, snap = calculate_mission_state(error_val)\<close>: the three parts of
  the result, as functions of the input.
\<close>

definition paths_t :: "real \<Rightarrow> path" where
  "paths_t error_val = fst (calculate_mission_state error_val)"

definition paths_e :: "real \<Rightarrow> path" where
  "paths_e error_val = fst (snd (calculate_mission_state error_val))"

definition snap :: "real \<Rightarrow> snapshot" where
  "snap error_val = snd (snd (calculate_mission_state error_val))"

text \<open>The components of a path, \<open>p[0]\<close>, \<open>p[1]\<close>, \<open>p[2]\<close>.\<close>

fun path_x :: "path \<Rightarrow> real list" where
  "path_x (xs, ys, zs) = xs"

fun path_y :: "path \<Rightarrow> real list" where
  "path_y (xs, ys, zs) = ys"

fun path_z :: "path \<Rightarrow> real list" where
  "path_z (xs, ys, zs) = zs"

text \<open>The components of the snapshot, \<open>snap[0]\<close> to \<open>snap[4]\<close>.\<close>

fun snap0 :: "snapshot \<Rightarrow> real" where
  "snap0 (xt, yt, xe, ye, r) = xt"

fun snap1 :: "snapshot \<Rightarrow> real" where
  "snap1 (xt, yt, xe, ye, r) = yt"

fun snap2 :: "snapshot \<Rightarrow> real" where
  "snap2 (xt, yt, xe, ye, r) = xe"

fun snap3 :: "snapshot \<Rightarrow> real" where
  "snap3 (xt, yt, xe, ye, r) = ye"

fun snap4 :: "snapshot \<Rightarrow> real" where
  "snap4 (xt, yt, xe, ye, r) = r"

text \<open>
  \<open>drift = np.sqrt((snap[0]-snap[2])**2 + (snap[1]-snap[3])**2)\<close> and the label
  \<open>"CRITICAL" if drift > 500 else "OK"\<close> shown beside it.
\<close>

definition drift :: "real \<Rightarrow> real" where
  "drift error_val =
     sqrt ((snap0 (snap error_val) - snap2 (snap error_val))\<^sup>2
         + (snap1 (snap error_val) - snap3 (snap error_val))\<^sup>2)"

definition drift_delta :: "real \<Rightarrow> string" where
  "drift_delta error_val = (if drift error_val > 500 then ''CRITICAL'' else ''OK'')"

section \<open>The engine in double precision\<close>

text \<open>
  Some properties of the engine depend on the rounding of the doubles: two ways of
  computing the same real number need not give the same double. For these the engine is
  modelled a second time, with every arithmetic operation followed by the rounding of
  IEEE 754 binary64: to the nearest number with a significand of 53 bits, a tie going to
  the even significand. Every definition below is its counterpart above with the
  roundings inserted, in the order in which Python and numpy evaluate the expression.
\<close>

subsection \<open>Rounding to a double\<close>

text \<open>Rounding to the nearest integer, a tie going to the even one.\<close>

definition round_half_even :: "real \<Rightarrow> int" where
  "round_half_even x =
     (let f = \<lfloor>x\<rfloor>; d = x - of_int f
      in if d < 1 / 2 then f else if 1 / 2 < d then f + 1 else if even f then f else f + 1)"

text \<open>
  The double nearest to a real number. A number \<open>x\<close> with \<open>2 ^ e \<le> \<bar>x\<bar> < 2 ^ (e + 1)\<close>
  is rounded to a multiple of \<open>2 ^ (e - 52)\<close>; below \<open>2 ^ (- 1022)\<close> the spacing stays
  \<open>2 ^ (- 1074)\<close> (the subnormal numbers). The overflow to infinity of a result beyond
  the largest double is not modelled: the inputs of the statements below are bounded.
\<close>

definition fl :: "real \<Rightarrow> real" where
  "fl x =
     (if x = 0 then 0
      else (let e = max \<lfloor>log 2 \<bar>x\<bar>\<rfloor> (- 1022);
                ulp = 2 powr of_int (e - 52)
            in of_int (round_half_even (x / ulp)) * ulp))"

text \<open>The unit roundoff: half the spacing of the doubles in \<open>[1, 2)\<close>.\<close>

definition unit_roundoff :: real where
  "unit_roundoff = 1 / 2 ^ 53"

subsection \<open>The numpy operations, rounded\<close>

text \<open>
  \<open>np.linspace(start, stop, num)\<close> as numpy computes it: \<open>delta = stop - start\<close>,
  \<open>step = delta / div\<close> with \<open>div = num - 1\<close>, the samples \<open>arange(0, num) * step + start\<close>
  (for a step of zero \<open>arange(0, num) / div * delta + start\<close>, and for \<open>div = 0\<close>
  \<open>arange(0, num) * delta + start\<close>), the last one overwritten with \<open>stop\<close> when
  \<open>num > 1\<close>. \<open>np.cos\<close> and \<open>np.sin\<close> are taken to return the double nearest to the
  cosine and the sine (correct rounding); the product of a scalar with an array rounds
  each product.
\<close>

definition linspace_d :: "real \<Rightarrow> real \<Rightarrow> nat \<Rightarrow> real list" where
  "linspace_d start stop num =
     (let divisor = num - 1;
          delta = fl (stop - start);
          y = map real [0..<num];
          y = (if divisor > 0
               then (let step = fl (delta / real divisor)
                     in if step = 0 then map (\<lambda>v. fl (fl (v / real divisor) * delta)) y
                        else map (\<lambda>v. fl (v * step)) y)
               else map (\<lambda>v. fl (v * delta)) y);
          y = map (\<lambda>v. fl (v + start)) y
      in if num > 1 then y[num - 1 := stop] else y)"

definition np_cos_d :: "real list \<Rightarrow> real list" where
  "np_cos_d xs = map (\<lambda>v. fl (cos v)) xs"

definition np_sin_d :: "real list \<Rightarrow> real list" where
  "np_sin_d xs = map (\<lambda>v. fl (sin v)) xs"

definition scalar_times_d :: "real \<Rightarrow> real list \<Rightarrow> real list" where
  "scalar_times_d k xs = map (\<lambda>v. fl (k * v)) xs"

definition times_scalar_d :: "real list \<Rightarrow> real \<Rightarrow> real list" where
  "times_scalar_d xs k = map (\<lambda>v. fl (v * k)) xs"

subsection \<open>calculate_mission_state, rounded\<close>

text \<open>
  The literals \<open>7.5\<close>, \<open>7000\<close>, \<open>0.5\<close>, \<open>100\<close> and \<open>1\<close> are doubles. The input is the
  value of \<open>error_pct\<close>, a Python int or float; \<open>error_pct / 100\<close> is the rounded
  quotient for both.
\<close>

definition calculate_mission_state_d :: "real \<Rightarrow> path \<times> path \<times> snapshot" where
  "calculate_mission_state_d error_pct =
     (let t_range = linspace_d 0 10 100;
          t_snapshot = (7.5 :: real);
          r_base = (7000 :: real);
          omega = (0.5 :: real);
          x_t = scalar_times_d r_base (np_cos_d (scalar_times_d omega t_range));
          y_t = scalar_times_d r_base (np_sin_d (scalar_times_d omega t_range));
          z_t = times_scalar_d t_range 100;
          r_err = fl (r_base * fl (1 + fl (error_pct / 100)));
          x_e = scalar_times_d r_err (np_cos_d (scalar_times_d omega t_range));
          y_e = scalar_times_d r_err (np_sin_d (scalar_times_d omega t_range));
          z_e = z_t;
          snap_xt = fl (r_base * fl (cos (fl (omega * t_snapshot))));
          snap_yt = fl (r_base * fl (sin (fl (omega * t_snapshot))));
          snap_xe = fl (r_err * fl (cos (fl (omega * t_snapshot))));
          snap_ye = fl (r_err * fl (sin (fl (omega * t_snapshot))))
      in ((x_t, y_t, z_t), (x_e, y_e, z_e), (snap_xt, snap_yt, snap_xe, snap_ye, r_err)))"

subsection \<open>The caller, rounded\<close>

text \<open>
  The drift \<open>np.sqrt((snap[0]-snap[2])**2 + (snap[1]-snap[3])**2)\<close>: each difference,
  each square, the sum and the square root are rounded (the square root of IEEE 754 is
  the double nearest to the root).
\<close>

definition paths_t_d :: "real \<Rightarrow> path" where
  "paths_t_d error_val = fst (calculate_mission_state_d error_val)"

definition paths_e_d :: "real \<Rightarrow> path" where
  "paths_e_d error_val = fst (snd (calculate_mission_state_d error_val))"

definition snap_d :: "real \<Rightarrow> snapshot" where
  "snap_d error_val = snd (snd (calculate_mission_state_d error_val))"

definition drift_d :: "real \<Rightarrow> real" where
  "drift_d error_val =
     fl (sqrt (fl (fl ((fl (snap0 (snap_d error_val) - snap2 (snap_d error_val)))\<^sup>2)
                 + fl ((fl (snap1 (snap_d error_val) - snap3 (snap_d error_val)))\<^sup>2))))"

definition drift_delta_d :: "real \<Rightarrow> string" where
  "drift_delta_d error_val = (if drift_d error_val > 500 then ''CRITICAL'' else ''OK'')"

section \<open>Properties\<close>

subsection \<open>Unfolding the engine\<close>

lemma length_linspace: "length (linspace a b n) = n"
  by (simp add: linspace_def Let_def)

text \<open>
  The grid of the engine: sample \<open>i\<close> is at \<open>10 i / 99\<close>, the overwritten last one
  included.
\<close>

lemma t_range_nth: "i < 100 \<Longrightarrow> linspace 0 10 100 ! i = 10 * real i / 99"
  by (simp add: linspace_def Let_def nth_list_update)

lemma paths_t_eq:
  "paths_t e = (map (\<lambda>t. 7000 * cos (0.5 * t)) (linspace 0 10 100),
                map (\<lambda>t. 7000 * sin (0.5 * t)) (linspace 0 10 100),
                map (\<lambda>t. t * 100) (linspace 0 10 100))"
  by (simp add: paths_t_def calculate_mission_state_def Let_def scalar_times_def
      times_scalar_def np_cos_def np_sin_def o_def)

lemma paths_e_eq:
  "paths_e e = (map (\<lambda>t. 7000 * (1 + e / 100) * cos (0.5 * t)) (linspace 0 10 100),
                map (\<lambda>t. 7000 * (1 + e / 100) * sin (0.5 * t)) (linspace 0 10 100),
                map (\<lambda>t. t * 100) (linspace 0 10 100))"
  by (simp add: paths_e_def calculate_mission_state_def Let_def scalar_times_def
      times_scalar_def np_cos_def np_sin_def o_def)

lemma path_lengths:
  "length (path_x (paths_t e)) = 100" "length (path_y (paths_t e)) = 100"
  "length (path_z (paths_t e)) = 100" "length (path_x (paths_e e)) = 100"
  "length (path_y (paths_e e)) = 100" "length (path_z (paths_e e)) = 100"
  by (simp_all add: paths_t_eq paths_e_eq length_linspace)

lemma snap_eq:
  "snap e = (7000 * cos (0.5 * 7.5), 7000 * sin (0.5 * 7.5),
             7000 * (1 + e / 100) * cos (0.5 * 7.5), 7000 * (1 + e / 100) * sin (0.5 * 7.5),
             7000 * (1 + e / 100))"
  by (simp add: snap_def calculate_mission_state_def Let_def)

subsection \<open>The drift in closed form\<close>

text \<open>
  Both snapshot positions lie on the same ray from the origin, so their distance is the
  difference of the radii: \<open>7000 * \<bar>e / 100\<bar> = 70 * \<bar>e\<bar>\<close>.
\<close>

lemma planar_distance_scaled:
  fixes c s k :: real
  shows "(7000 * c - 7000 * k * c)\<^sup>2 + (7000 * s - 7000 * k * s)\<^sup>2
         = (7000 * (1 - k))\<^sup>2 * (s\<^sup>2 + c\<^sup>2)"
  by (simp add: power2_eq_square algebra_simps)

lemma drift_closed_form: "drift e = 70 * \<bar>e\<bar>"
proof -
  let ?c = "cos (0.5 * 7.5 :: real)" and ?s = "sin (0.5 * 7.5 :: real)"
  have "drift e = sqrt ((7000 * ?c - 7000 * (1 + e / 100) * ?c)\<^sup>2
                      + (7000 * ?s - 7000 * (1 + e / 100) * ?s)\<^sup>2)"
    by (simp only: drift_def snap_eq snap0.simps snap1.simps snap2.simps snap3.simps)
  also have "\<dots> = sqrt ((7000 * (1 - (1 + e / 100)))\<^sup>2 * (?s\<^sup>2 + ?c\<^sup>2))"
    by (simp only: planar_distance_scaled)
  also have "\<dots> = sqrt ((7000 * (1 - (1 + e / 100)))\<^sup>2)"
    by (simp only: sin_cos_squared_add mult_1_right)
  also have "\<dots> = \<bar>7000 * (1 - (1 + e / 100))\<bar>"
    by (rule real_sqrt_abs)
  also have "\<dots> = 70 * \<bar>e\<bar>"
    by (simp add: abs_mult)
  finally show ?thesis .
qed

subsection \<open>The ghost radius\<close>

text \<open>
  Claim C1: for every input \<open>e\<close>, the ghost radius the engine returns, the fifth value of
  the snapshot, is \<open>7000 * (1 + e / 100)\<close>.
\<close>

theorem ghost_radius_formula: "snap4 (snap e) = 7000 * (1 + e / 100)"
  by (simp add: snap_eq)

subsection \<open>No anomaly\<close>

text \<open>
  Claim C2: at \<open>errorPercent = 0\<close> the ghost radius is 7000, the ghost path is the true
  path (the three arrays of 100 samples each are equal), and the drift computed from the
  snapshot is 0.
\<close>

theorem zero_error_identity:
  "snap4 (snap 0) = 7000 \<and> paths_e 0 = paths_t 0
   \<and> length (path_x (paths_t 0)) = 100 \<and> length (path_y (paths_t 0)) = 100
   \<and> length (path_z (paths_t 0)) = 100 \<and> drift 0 = 0"
  by (simp add: snap_eq paths_t_eq paths_e_eq length_linspace drift_closed_form)

subsection \<open>The drift and its label\<close>

text \<open>
  Claim C3: for every input, with the snapshot \<open>(x_true, y_true, x_ghost, y_ghost,
  r_ghost)\<close>, the drift is the Euclidean distance of \<open>(x_true, y_true)\<close> and
  \<open>(x_ghost, y_ghost)\<close>, and the label is \<open>CRITICAL\<close> exactly when the drift is
  greater than 500, and \<open>OK\<close> exactly when it is not.
\<close>

theorem drift_is_planar_distance:
  assumes "snap e = (x_true, y_true, x_ghost, y_ghost, r_ghost)"
  shows "drift e = sqrt ((x_true - x_ghost)\<^sup>2 + (y_true - y_ghost)\<^sup>2)
         \<and> (drift_delta e = ''CRITICAL'') = (drift e > 500)
         \<and> (drift_delta e = ''OK'') = (\<not> drift e > 500)"
  using assms by (simp add: drift_def drift_delta_def)

text \<open>
  At \<open>errorPercent = 20\<close>: the ghost radius is 8400, the drift is 1400 and the label
  is \<open>CRITICAL\<close>.
\<close>

theorem drift_is_planar_distance_witness:
  "snap 20 = (7000 * cos (0.5 * 7.5), 7000 * sin (0.5 * 7.5),
              8400 * cos (0.5 * 7.5), 8400 * sin (0.5 * 7.5), 8400)
   \<and> drift 20 = sqrt ((7000 * cos (0.5 * 7.5) - 8400 * cos (0.5 * 7.5))\<^sup>2
                     + (7000 * sin (0.5 * 7.5) - 8400 * sin (0.5 * 7.5))\<^sup>2)
   \<and> drift 20 = 1400
   \<and> drift_delta 20 = ''CRITICAL''"
proof -
  have s: "snap 20 = (7000 * cos (0.5 * 7.5), 7000 * sin (0.5 * 7.5),
                      8400 * cos (0.5 * 7.5), 8400 * sin (0.5 * 7.5), 8400)"
    by (simp add: snap_eq)
  have d: "drift 20 = 1400"
    by (simp add: drift_closed_form)
  from drift_is_planar_distance [OF s] d s show ?thesis
    by simp
qed

subsection \<open>The sampling grid\<close>

text \<open>
  Claim C4: for every input, each of the six arrays of the two paths has exactly 100
  samples; the sample times \<open>np.linspace(0, 10, 100)\<close> are 100 values that start at 0,
  end at 10 and are \<open>10 / 99\<close> apart; and sample \<open>i\<close> of either path is the one taken
  at time \<open>i\<close> of that grid (its \<open>z\<close> is 100 times that time).
\<close>

theorem path_sampling_grid:
  "length (path_x (paths_t e)) = 100 \<and> length (path_y (paths_t e)) = 100
   \<and> length (path_z (paths_t e)) = 100 \<and> length (path_x (paths_e e)) = 100
   \<and> length (path_y (paths_e e)) = 100 \<and> length (path_z (paths_e e)) = 100
   \<and> length (linspace 0 10 100) = 100
   \<and> linspace 0 10 100 ! 0 = 0 \<and> linspace 0 10 100 ! 99 = 10
   \<and> (\<forall>i<99. linspace 0 10 100 ! Suc i - linspace 0 10 100 ! i = 10 / 99)
   \<and> (\<forall>i<100. path_z (paths_t e) ! i = linspace 0 10 100 ! i * 100
              \<and> path_z (paths_e e) ! i = linspace 0 10 100 ! i * 100)"
proof -
  have step: "\<forall>i<99. linspace 0 10 100 ! Suc i - linspace 0 10 100 ! i = 10 / 99"
  proof (intro allI impI)
    fix i :: nat
    assume "i < 99"
    then have "linspace 0 10 100 ! Suc i = 10 * real (Suc i) / 99"
      and "linspace 0 10 100 ! i = 10 * real i / 99"
      by (simp_all only: t_range_nth)
    then show "linspace 0 10 100 ! Suc i - linspace 0 10 100 ! i = 10 / 99"
      by (simp add: field_simps)
  qed
  have z: "\<forall>i<100. path_z (paths_t e) ! i = linspace 0 10 100 ! i * 100
              \<and> path_z (paths_e e) ! i = linspace 0 10 100 ! i * 100"
    by (simp add: paths_t_eq paths_e_eq length_linspace)
  have ends: "linspace 0 10 100 ! 0 = 0" "linspace 0 10 100 ! 99 = 10"
    by (simp_all add: t_range_nth)
  from step z ends show ?thesis
    by (simp only: path_lengths length_linspace simp_thms)
qed

text \<open>
  At \<open>errorPercent = 20\<close>: the grid's step from index 3 to index 4, and the last
  sample of the ghost path, at time 10.
\<close>

theorem path_sampling_grid_witness:
  "length (path_x (paths_e 20)) = 100
   \<and> linspace 0 10 100 ! 4 - linspace 0 10 100 ! 3 = 10 / 99
   \<and> path_z (paths_e 20) ! 99 = 1000"
proof -
  note g = path_sampling_grid [of 20]
  from g have "length (path_x (paths_e 20)) = 100"
    by blast
  moreover from g have "\<forall>i<99. linspace 0 10 100 ! Suc i - linspace 0 10 100 ! i = 10 / 99"
    by blast
  from this [rule_format, of 3]
  have "linspace 0 10 100 ! 4 - linspace 0 10 100 ! 3 = 10 / 99"
    by simp
  moreover from g have "path_z (paths_e 20) ! 99 = linspace 0 10 100 ! 99 * 100"
    and "linspace 0 10 100 ! 99 = 10"
    by simp_all
  then have "path_z (paths_e 20) ! 99 = 1000"
    by simp
  ultimately show ?thesis
    by simp
qed

subsection \<open>The true path\<close>

text \<open>
  Claim C5: for every input and every index \<open>i\<close> of the grid, with \<open>t\<close> the sample
  time \<open>10 i / 99\<close>, the sample of the true path is
  \<open>(7000 cos (0.5 t), 7000 sin (0.5 t), 100 t)\<close>.
\<close>

theorem true_path_closed_form:
  assumes "i < 100"
  shows "linspace 0 10 100 ! i = 10 * real i / 99
         \<and> path_x (paths_t e) ! i = 7000 * cos (0.5 * (linspace 0 10 100 ! i))
         \<and> path_y (paths_t e) ! i = 7000 * sin (0.5 * (linspace 0 10 100 ! i))
         \<and> path_z (paths_t e) ! i = 100 * (linspace 0 10 100 ! i)"
  using assms by (simp add: paths_t_eq length_linspace t_range_nth)

text \<open>Sample 33, at time \<open>10 / 3\<close>.\<close>

theorem true_path_closed_form_witness:
  "(33::nat) < 100
   \<and> linspace 0 10 100 ! 33 = 10 / 3
   \<and> path_x (paths_t 20) ! 33 = 7000 * cos (0.5 * (10 / 3))
   \<and> path_y (paths_t 20) ! 33 = 7000 * sin (0.5 * (10 / 3))
   \<and> path_z (paths_t 20) ! 33 = 100 * (10 / 3)"
proof -
  have t: "linspace 0 10 100 ! 33 = 10 / 3"
    by (simp add: t_range_nth)
  from true_path_closed_form [of 33 20] show ?thesis
    unfolding t by simp
qed

subsection \<open>The ghost path\<close>

text \<open>
  Claim C6: for every input, the \<open>z\<close> array of the ghost path is the \<open>z\<close> array of the
  true path, so the two agree at every index from 0 to 99.
\<close>

theorem ghost_z_unchanged:
  "path_z (paths_e e) = path_z (paths_t e) \<and> length (path_z (paths_t e)) = 100
   \<and> (\<forall>i<100. path_z (paths_e e) ! i = path_z (paths_t e) ! i)"
  by (simp add: paths_t_eq paths_e_eq length_linspace)

text \<open>The last sample at \<open>errorPercent = 50\<close>: both paths are at \<open>z = 1000\<close>.\<close>

theorem ghost_z_unchanged_witness:
  "(99::nat) < 100 \<and> path_z (paths_e 50) ! 99 = path_z (paths_t 50) ! 99
   \<and> path_z (paths_t 50) ! 99 = 1000"
proof -
  have "path_z (paths_t 50) ! 99 = 1000"
    by (simp add: paths_t_eq length_linspace t_range_nth)
  with ghost_z_unchanged [of 50] show ?thesis
    by simp
qed

subsection \<open>The snapshot\<close>

text \<open>
  Claim C7: for every input, the snapshot is the five values
  \<open>(x_true, y_true, x_ghost, y_ghost, R_ghost)\<close>: the \<open>x\<close> and \<open>y\<close> of both paths at
  the time 7.5, the true ones with the radius 7000 and the ghost ones with the ghost
  radius, which is the fifth value.
\<close>

theorem snapshot_values:
  "snap e = (7000 * cos (0.5 * 7.5), 7000 * sin (0.5 * 7.5),
             snap4 (snap e) * cos (0.5 * 7.5), snap4 (snap e) * sin (0.5 * 7.5),
             7000 * (1 + e / 100))"
  by (simp add: snap_eq)

subsection \<open>The scenario of five percent\<close>

text \<open>
  Claim C9, as amended: at \<open>errorPercent = 5\<close> the ghost radius is 7350, the drift is
  approximately 350.0 (within half a unit of the decimal it is written to), and the label
  is \<open>OK\<close>.
\<close>

theorem scenario_five_percent:
  "snap4 (snap 5) = 7350 \<and> \<bar>drift 5 - 350\<bar> < 0.05 \<and> drift_delta 5 = ''OK''"
  by (simp add: snap_eq drift_closed_form drift_delta_def)

text \<open>
  Claim C9 as the specification states it gives the drift as approximately 349.8, a value
  written to one decimal. Read the same way, within half a unit of that decimal, it does
  not hold: the drift is 0.2 away from 349.8.
\<close>

theorem drift_at_five_is_not_349_8:
  "\<not> (snap4 (snap 5) = 7350 \<and> \<bar>drift 5 - 349.8\<bar> < 0.05 \<and> drift_delta 5 = ''OK'')"
  by (simp add: drift_closed_form)

section \<open>Properties of the engine in double precision\<close>

subsection \<open>Rounding: how to evaluate it, and how far it moves a number\<close>

lemma round_half_even_error: "\<bar>of_int (round_half_even x) - x\<bar> \<le> 1 / 2"
  unfolding round_half_even_def Let_def by (auto; linarith)

lemma round_half_even_eqI:
  assumes "\<bar>x - of_int m\<bar> < 1 / 2"
  shows "round_half_even x = m"
proof -
  have lo: "of_int m - 1 / 2 < x" and hi: "x < of_int m + 1 / 2"
    using assms by linarith+
  show ?thesis
  proof (cases "of_int m \<le> x")
    case True
    with hi have f: "\<lfloor>x\<rfloor> = m"
      by (intro floor_unique) simp_all
    with hi show ?thesis
      by (simp add: round_half_even_def Let_def)
  next
    case False
    with lo have f: "\<lfloor>x\<rfloor> = m - 1"
      by (intro floor_unique) simp_all
    with lo show ?thesis
      by (simp add: round_half_even_def Let_def)
  qed
qed

lemma round_half_even_tie:
  assumes "\<bar>x - of_int m\<bar> = 1 / 2" and "even m"
  shows "round_half_even x = m"
proof (cases "of_int m \<le> x")
  case True
  with assms(1) have x: "x = of_int m + 1 / 2"
    by linarith
  then have "\<lfloor>x\<rfloor> = m"
    by (intro floor_unique) simp_all
  with x assms(2) show ?thesis
    by (simp add: round_half_even_def Let_def)
next
  case False
  with assms(1) have x: "x = of_int m - 1 / 2"
    by linarith
  then have "\<lfloor>x\<rfloor> = m - 1"
    by (intro floor_unique) simp_all
  with x assms(2) show ?thesis
    by (simp add: round_half_even_def Let_def)
qed

lemma fl_zero: "fl 0 = 0"
  by (simp add: fl_def)

lemma fl_eq_roundI:
  assumes lo: "2 powr of_int e \<le> \<bar>x\<bar>" and hi: "\<bar>x\<bar> < 2 powr of_int (e + 1)"
    and range: "- 1022 \<le> e"
    and m: "round_half_even (x / 2 powr of_int (e - 52)) = m"
  shows "fl x = of_int m * 2 powr of_int (e - 52)"
proof -
  have "0 < 2 powr (of_int e :: real)"
    by simp
  with lo have pos: "0 < \<bar>x\<bar>"
    by linarith
  then have nz: "x \<noteq> 0"
    by simp
  from lo hi pos have "\<lfloor>log 2 \<bar>x\<bar>\<rfloor> = e"
    by (simp add: floor_log_eq_powr_iff)
  with range have "max \<lfloor>log 2 \<bar>x\<bar>\<rfloor> (- 1022) = e"
    by simp
  with nz m show ?thesis
    by (simp add: fl_def Let_def)
qed

lemma fl_eqI:
  assumes "2 powr of_int e \<le> \<bar>x\<bar>" and "\<bar>x\<bar> < 2 powr of_int (e + 1)"
    and "- 1022 \<le> e"
    and "\<bar>x / 2 powr of_int (e - 52) - of_int m\<bar> < 1 / 2"
  shows "fl x = of_int m * 2 powr of_int (e - 52)"
  using assms(1-3) round_half_even_eqI [OF assms(4)] by (rule fl_eq_roundI)

lemma fl_eq_tieI:
  assumes "2 powr of_int e \<le> \<bar>x\<bar>" and "\<bar>x\<bar> < 2 powr of_int (e + 1)"
    and "- 1022 \<le> e"
    and "\<bar>x / 2 powr of_int (e - 52) - of_int m\<bar> = 1 / 2" and "even m"
  shows "fl x = of_int m * 2 powr of_int (e - 52)"
  using assms(1-3) round_half_even_tie [OF assms(4,5)] by (rule fl_eq_roundI)

lemma fl_eq_boundsI:
  assumes "lo < x" and "x < hi"
    and "2 powr of_int e \<le> lo" and "hi \<le> 2 powr of_int (e + 1)" and "- 1022 \<le> e"
    and "(of_int m - 1 / 2) * 2 powr of_int (e - 52) \<le> lo"
    and "hi \<le> (of_int m + 1 / 2) * 2 powr of_int (e - 52)"
  shows "fl x = of_int m * 2 powr of_int (e - 52)"
proof (rule fl_eqI)
  have "0 < 2 powr (of_int e :: real)"
    by simp
  with assms(1,3) have pos: "0 < x"
    by linarith
  with assms(1,3) show "2 powr of_int e \<le> \<bar>x\<bar>"
    by simp
  from pos assms(2,4) show "\<bar>x\<bar> < 2 powr of_int (e + 1)"
    by simp
  show "- 1022 \<le> e"
    by fact
  let ?u = "2 powr (of_int (e - 52) :: real)"
  have u: "0 < ?u"
    by simp
  from assms(1,6) have "(of_int m - 1 / 2) * ?u < x"
    by linarith
  with u have "of_int m - 1 / 2 < x / ?u"
    by (simp add: pos_less_divide_eq)
  moreover from assms(2,7) have "x < (of_int m + 1 / 2) * ?u"
    by linarith
  with u have "x / ?u < of_int m + 1 / 2"
    by (simp add: pos_divide_less_eq)
  ultimately show "\<bar>x / ?u - of_int m\<bar> < 1 / 2"
    by linarith
qed

lemma fl_error_bound:
  assumes "\<bar>x\<bar> \<le> 2 powr of_int n" and "- 1022 \<le> n"
  shows "\<bar>fl x - x\<bar> \<le> 2 powr of_int (n - 53)"
proof (cases "x = 0")
  case True
  then show ?thesis
    by (simp add: fl_def)
next
  case False
  define e where "e = max \<lfloor>log 2 \<bar>x\<bar>\<rfloor> (- 1022)"
  define ulp :: real where "ulp = 2 powr of_int (e - 52)"
  have ulp_pos: "0 < ulp"
    by (simp add: ulp_def)
  from False have "log 2 \<bar>x\<bar> \<le> of_int n"
    using assms(1) by (simp add: log_le_iff)
  then have "\<lfloor>log 2 \<bar>x\<bar>\<rfloor> \<le> n"
    by (simp add: floor_le_iff)
  with assms(2) have "e \<le> n"
    by (simp add: e_def)
  then have ulp_le: "ulp \<le> 2 powr of_int (n - 52)"
    by (simp add: ulp_def)
  have "fl x = of_int (round_half_even (x / ulp)) * ulp"
    using False by (simp add: fl_def Let_def e_def ulp_def)
  then have "fl x - x = (of_int (round_half_even (x / ulp)) - x / ulp) * ulp"
    using ulp_pos by (simp add: field_simps)
  then have "\<bar>fl x - x\<bar> = \<bar>of_int (round_half_even (x / ulp)) - x / ulp\<bar> * ulp"
    using ulp_pos by (simp add: abs_mult)
  also have "\<dots> \<le> 1 / 2 * ulp"
    using round_half_even_error [of "x / ulp"] ulp_pos by (intro mult_right_mono) simp_all
  also have "\<dots> \<le> 1 / 2 * 2 powr of_int (n - 52)"
    using ulp_le by simp
  also have "\<dots> = 2 powr of_int (n - 53)"
  proof -
    have "of_int (n - 52) = of_int (n - 53) + (1::real)"
      by simp
    then have "2 powr of_int (n - 52) = 2 powr of_int (n - 53) * (2::real)"
      by (simp only: powr_add) simp
    then show ?thesis
      by simp
  qed
  finally show ?thesis .
qed

lemma fl_err_pow:
  assumes "\<bar>x\<bar> \<le> 2 ^ n"
  shows "\<bar>fl x - x\<bar> \<le> 2 ^ n / 2 ^ 53"
proof -
  have "\<bar>fl x - x\<bar> \<le> 2 powr of_int (int n - 53)"
    using assms by (intro fl_error_bound) (simp_all add: powr_realpow)
  also have "\<dots> = 2 ^ n / 2 ^ 53"
    by (simp add: powr_diff powr_realpow)
  finally show ?thesis .
qed

lemma unit_roundoff_pos: "0 < unit_roundoff"
  by (simp add: unit_roundoff_def)

lemma unit_roundoff_small: "unit_roundoff \<le> 1 / 1000000000000000"
  by (simp add: unit_roundoff_def)

lemma fl_err_unit:
  assumes "\<bar>x\<bar> \<le> 2 ^ n"
  shows "\<bar>fl x - x\<bar> \<le> 2 ^ n * unit_roundoff"
  using fl_err_pow [OF assms] by (simp add: unit_roundoff_def)

subsection \<open>Unfolding the rounded engine\<close>

lemma fl_exact_15_4: "fl (0.5 * 7.5) = 15 / 4"
  using fl_eqI [of 1 "0.5 * 7.5" "15 * 2 ^ 49"] by (simp add: powr_neg_numeral)

lemma snap_d_eq:
  "snap_d e =
     (fl (7000 * fl (cos (fl (0.5 * 7.5)))),
      fl (7000 * fl (sin (fl (0.5 * 7.5)))),
      fl (fl (7000 * fl (1 + fl (e / 100))) * fl (cos (fl (0.5 * 7.5)))),
      fl (fl (7000 * fl (1 + fl (e / 100))) * fl (sin (fl (0.5 * 7.5)))),
      fl (7000 * fl (1 + fl (e / 100))))"
  by (simp add: snap_d_def calculate_mission_state_d_def Let_def)

lemma drift_d_eq:
  "drift_d e =
     fl (sqrt (fl (fl ((fl (fl (7000 * fl (cos (fl (0.5 * 7.5))))
                          - fl (fl (7000 * fl (1 + fl (e / 100))) * fl (cos (fl (0.5 * 7.5))))))\<^sup>2)
                 + fl ((fl (fl (7000 * fl (sin (fl (0.5 * 7.5))))
                          - fl (fl (7000 * fl (1 + fl (e / 100))) * fl (sin (fl (0.5 * 7.5))))))\<^sup>2))))"
  by (simp only: drift_d_def snap_d_eq snap0.simps snap1.simps snap2.simps snap3.simps)

lemma length_linspace_d: "length (linspace_d a b n) = n"
  by (simp add: linspace_d_def Let_def)

lemma paths_t_d_eq:
  "paths_t_d e =
     (map (\<lambda>t. fl (7000 * fl (cos (fl (0.5 * t))))) (linspace_d 0 10 100),
      map (\<lambda>t. fl (7000 * fl (sin (fl (0.5 * t))))) (linspace_d 0 10 100),
      map (\<lambda>t. fl (t * 100)) (linspace_d 0 10 100))"
  by (simp add: paths_t_d_def calculate_mission_state_d_def Let_def scalar_times_d_def
      times_scalar_d_def np_cos_d_def np_sin_d_def o_def)

lemma paths_e_d_eq:
  "paths_e_d e =
     (map (\<lambda>t. fl (fl (7000 * fl (1 + fl (e / 100))) * fl (cos (fl (0.5 * t)))))
        (linspace_d 0 10 100),
      map (\<lambda>t. fl (fl (7000 * fl (1 + fl (e / 100))) * fl (sin (fl (0.5 * t)))))
        (linspace_d 0 10 100),
      map (\<lambda>t. fl (t * 100)) (linspace_d 0 10 100))"
  by (simp add: paths_e_d_def calculate_mission_state_d_def Let_def scalar_times_d_def
      times_scalar_d_def np_cos_d_def np_sin_d_def o_def)

subsection \<open>The rounding error of the snapshot and of the drift\<close>

text \<open>
  For \<open>\<bar>e\<bar> \<le> 100\<close> the computed ghost radius is within \<open>2 ^ 17\<close> unit roundoffs of
  \<open>7000 (1 + e / 100)\<close>. With it, each computed coordinate of the ghost is within
  \<open>2 ^ 19\<close> unit roundoffs of \<open>1 + e / 100\<close> times the computed coordinate of the true
  position, and each computed difference of a true and a ghost coordinate within
  \<open>2 ^ 18\<close> unit roundoffs of its real value. For \<open>1 \<le> \<bar>e\<bar> \<le> 100\<close> the computed drift
  is then within \<open>2 ^ (- 24)\<close> of \<open>70 \<bar>e\<bar>\<close>.
\<close>

lemma abs_mult_le:
  fixes x y :: real
  assumes "\<bar>x\<bar> \<le> a" and "\<bar>y\<bar> \<le> b"
  shows "\<bar>x * y\<bar> \<le> a * b"
proof -
  have "0 \<le> \<bar>x\<bar>" and "0 \<le> \<bar>y\<bar>"
    by simp_all
  with assms have "\<bar>x\<bar> * \<bar>y\<bar> \<le> a * b"
    by (intro mult_mono) linarith+
  then show ?thesis
    by (simp only: abs_mult)
qed

lemma sqrt_diff_le:
  fixes p q :: real
  assumes "0 \<le> p" and "0 < q"
  shows "\<bar>sqrt p - sqrt q\<bar> \<le> \<bar>p - q\<bar> / sqrt q"
proof -
  define d where "d = sqrt p - sqrt q"
  define s where "s = sqrt p + sqrt q"
  have rq: "0 < sqrt q"
    using assms(2) by simp
  have rp: "0 \<le> sqrt p"
    using assms(1) by simp
  have s: "sqrt q \<le> s"
    using rp by (simp add: s_def)
  with rq have s_pos: "0 < s"
    by linarith
  have "p - q = d * s"
    using assms by (simp add: d_def s_def algebra_simps)
  then have "\<bar>p - q\<bar> = \<bar>d\<bar> * \<bar>s\<bar>"
    by (simp only: abs_mult)
  with s_pos have "\<bar>p - q\<bar> = \<bar>d\<bar> * s"
    by simp
  moreover have "\<bar>d\<bar> * sqrt q \<le> \<bar>d\<bar> * s"
    using s by (intro mult_left_mono) simp_all
  ultimately have "\<bar>d\<bar> * sqrt q \<le> \<bar>p - q\<bar>"
    by simp
  with rq show ?thesis
    by (simp add: pos_le_divide_eq d_def)
qed

lemma radius_error:
  assumes "\<bar>e\<bar> \<le> 100"
  shows "\<bar>fl (7000 * fl (1 + fl (e / 100))) - 7000 * (1 + e / 100)\<bar> \<le> 131072 * unit_roundoff"
proof -
  note u = unit_roundoff_pos unit_roundoff_small
  define q where "q = fl (e / 100)"
  define k where "k = fl (1 + q)"
  define r where "r = fl (7000 * k)"
  have "\<bar>e / 100\<bar> \<le> 2 ^ 0"
    using assms by simp
  from fl_err_unit [OF this] have q: "\<bar>q - e / 100\<bar> \<le> unit_roundoff"
    by (simp add: q_def)
  have "\<bar>1 + q\<bar> \<le> 2 ^ 2"
    using q assms u by simp
  from fl_err_unit [OF this] have k: "\<bar>k - (1 + q)\<bar> \<le> 4 * unit_roundoff"
    by (simp add: k_def)
  have "\<bar>7000 * k\<bar> \<le> 2 ^ 15"
    using q k assms u by simp
  from fl_err_unit [OF this] have r: "\<bar>r - 7000 * k\<bar> \<le> 32768 * unit_roundoff"
    by (simp add: r_def)
  from q k r u have "\<bar>r - 7000 * (1 + e / 100)\<bar> \<le> 131072 * unit_roundoff"
    by (auto simp: abs_le_iff)
  then show ?thesis
    by (simp only: r_def k_def q_def)
qed

lemma coordinate_error:
  fixes e t :: real
  assumes e: "\<bar>e\<bar> \<le> 100" and t: "\<bar>t\<bar> \<le> 1"
  defines "r \<equiv> fl (7000 * fl (1 + fl (e / 100)))"
  shows "\<bar>fl (r * fl t) - (1 + e / 100) * fl (7000 * fl t)\<bar> \<le> 524288 * unit_roundoff"
    and "\<bar>fl (fl (7000 * fl t) - fl (r * fl t)) - (- 70 * e * t)\<bar> \<le> 262144 * unit_roundoff"
proof -
  note u = unit_roundoff_pos unit_roundoff_small
  define K where "K = 1 + e / 100"
  define c where "c = fl t"
  define a where "a = fl (7000 * c)"
  define b where "b = fl (r * c)"
  define dx where "dx = fl (a - b)"
  have K: "\<bar>K\<bar> \<le> 2" and K1: "\<bar>1 - K\<bar> \<le> 1"
    using e by (auto simp: K_def abs_le_iff)
  have rr: "\<bar>r - 7000 * K\<bar> \<le> 131072 * unit_roundoff"
    using radius_error [OF e] by (simp only: r_def K_def)
  have r_le: "\<bar>r\<bar> \<le> 14001" and r7: "\<bar>7000 - r\<bar> \<le> 7001"
    using rr K K1 u by (auto simp: abs_le_iff)
  have "\<bar>t\<bar> \<le> 2 ^ 0"
    using t by simp
  from fl_err_unit [OF this] have cc: "\<bar>c - t\<bar> \<le> unit_roundoff"
    by (simp add: c_def)
  have c_le: "\<bar>c\<bar> \<le> 2"
    using cc t u by (auto simp: abs_le_iff)
  have "\<bar>7000 * c\<bar> \<le> 2 ^ 14"
    using c_le by (auto simp: abs_le_iff)
  from fl_err_unit [OF this] have aa: "\<bar>a - 7000 * c\<bar> \<le> 16384 * unit_roundoff"
    by (simp add: a_def)
  have "\<bar>r * c\<bar> \<le> 14001 * 2"
    using r_le c_le by (rule abs_mult_le)
  then have rc: "\<bar>r * c\<bar> \<le> 2 ^ 15"
    by simp
  from fl_err_unit [OF this] have bb: "\<bar>b - r * c\<bar> \<le> 32768 * unit_roundoff"
    by (simp add: b_def)
  define E1 where "E1 = b - r * c"
  define E2 where "E2 = a - 7000 * c"
  define P1 where "P1 = (r - 7000 * K) * c"
  define P2 where "P2 = K * (7000 * c - a)"
  define P3 where "P3 = (7000 - r) * (c - t)"
  define P4 where "P4 = (7000 * K - r) * t"
  have E1: "\<bar>E1\<bar> \<le> 32768 * unit_roundoff"
    using bb by (simp only: E1_def)
  have E2: "\<bar>E2\<bar> \<le> 16384 * unit_roundoff"
    using aa by (simp only: E2_def)
  have "\<bar>P1\<bar> \<le> 131072 * unit_roundoff * 2"
    unfolding P1_def using rr c_le by (rule abs_mult_le)
  then have P1: "\<bar>P1\<bar> \<le> 262144 * unit_roundoff"
    by simp
  have "\<bar>7000 * c - a\<bar> \<le> 16384 * unit_roundoff"
    using aa by (simp only: abs_minus_commute)
  with K have "\<bar>P2\<bar> \<le> 2 * (16384 * unit_roundoff)"
    unfolding P2_def by (rule abs_mult_le)
  then have P2: "\<bar>P2\<bar> \<le> 32768 * unit_roundoff"
    by simp
  have "\<bar>P3\<bar> \<le> 7001 * unit_roundoff"
    unfolding P3_def using r7 cc by (rule abs_mult_le)
  then have P3: "\<bar>P3\<bar> \<le> 7001 * unit_roundoff" .
  have "\<bar>7000 * K - r\<bar> \<le> 131072 * unit_roundoff"
    using rr by (simp only: abs_minus_commute)
  then have "\<bar>P4\<bar> \<le> 131072 * unit_roundoff * 1"
    unfolding P4_def using t by (rule abs_mult_le)
  then have P4: "\<bar>P4\<bar> \<le> 131072 * unit_roundoff"
    by simp
  have "b - K * a = E1 + P1 + P2"
    by (simp add: E1_def P1_def P2_def algebra_simps)
  moreover from E1 P1 P2 have "\<bar>E1 + P1 + P2\<bar> \<le> 524288 * unit_roundoff"
    using u by (auto simp: abs_le_iff)
  ultimately have "\<bar>b - K * a\<bar> \<le> 524288 * unit_roundoff"
    by simp
  then show "\<bar>fl (r * fl t) - (1 + e / 100) * fl (7000 * fl t)\<bar> \<le> 524288 * unit_roundoff"
    by (simp only: b_def a_def c_def K_def)
  have a_le: "\<bar>a\<bar> \<le> 14001"
    using aa c_le u by (auto simp: abs_le_iff)
  have b_le: "\<bar>b\<bar> \<le> 28003"
    using bb \<open>\<bar>r * c\<bar> \<le> 14001 * 2\<close> u by (auto simp: abs_le_iff)
  have "\<bar>a - b\<bar> \<le> 2 ^ 16"
    using a_le b_le by (auto simp: abs_le_iff)
  from fl_err_unit [OF this] have dd: "\<bar>dx - (a - b)\<bar> \<le> 65536 * unit_roundoff"
    by (simp add: dx_def)
  define E3 where "E3 = dx - (a - b)"
  have E3: "\<bar>E3\<bar> \<le> 65536 * unit_roundoff"
    using dd by (simp only: E3_def)
  have "dx - (- 70 * e * t) = E3 + E2 - E1 + P3 + P4"
    by (simp add: E1_def E2_def E3_def P3_def P4_def K_def field_simps)
  moreover from E1 E2 E3 P3 P4 have "\<bar>E3 + E2 - E1 + P3 + P4\<bar> \<le> 262144 * unit_roundoff"
    using u by (auto simp: abs_le_iff)
  ultimately have "\<bar>dx - (- 70 * e * t)\<bar> \<le> 262144 * unit_roundoff"
    by simp
  then show "\<bar>fl (fl (7000 * fl t) - fl (r * fl t)) - (- 70 * e * t)\<bar> \<le> 262144 * unit_roundoff"
    by (simp only: dx_def b_def a_def c_def)
qed

lemma square_error:
  fixes d D :: real
  assumes "\<bar>d - D\<bar> \<le> 262144 * unit_roundoff" and "\<bar>D\<bar> \<le> 7000"
  shows "\<bar>fl (d\<^sup>2) - D\<^sup>2\<bar> \<le> 4362076160 * unit_roundoff"
    and "\<bar>fl (d\<^sup>2)\<bar> \<le> 67108865"
proof -
  note u = unit_roundoff_pos unit_roundoff_small
  have d_le: "\<bar>d\<bar> \<le> 7001" and s_le: "\<bar>d + D\<bar> \<le> 14001"
    using assms u by (auto simp: abs_le_iff)
  have "\<bar>d * d\<bar> \<le> 7001 * 7001"
    using d_le d_le by (rule abs_mult_le)
  then have dd: "\<bar>d\<^sup>2\<bar> \<le> 2 ^ 26"
    by (simp add: power2_eq_square)
  define E where "E = fl (d\<^sup>2) - d\<^sup>2"
  from fl_err_unit [OF dd] have E: "\<bar>E\<bar> \<le> 67108864 * unit_roundoff"
    by (simp add: E_def)
  define P where "P = (d - D) * (d + D)"
  have "\<bar>P\<bar> \<le> 262144 * unit_roundoff * 14001"
    unfolding P_def using assms(1) s_le by (rule abs_mult_le)
  then have P: "\<bar>P\<bar> \<le> 3670278144 * unit_roundoff"
    by simp
  have "fl (d\<^sup>2) - D\<^sup>2 = E + P"
    by (simp add: E_def P_def power2_eq_square algebra_simps)
  moreover from E P u have "\<bar>E + P\<bar> \<le> 4362076160 * unit_roundoff"
    by (auto simp: abs_le_iff)
  ultimately show "\<bar>fl (d\<^sup>2) - D\<^sup>2\<bar> \<le> 4362076160 * unit_roundoff"
    by simp
  define S where "S = d\<^sup>2"
  have "\<bar>S\<bar> \<le> 67108864"
    using dd by (simp add: S_def)
  moreover have "\<bar>fl S - S\<bar> \<le> 67108864 * unit_roundoff"
    using E by (simp only: E_def S_def)
  ultimately have "\<bar>fl S\<bar> \<le> 67108865"
    using u by (auto simp: abs_le_iff)
  then show "\<bar>fl (d\<^sup>2)\<bar> \<le> 67108865"
    by (simp only: S_def)
qed

lemma drift_d_error:
  assumes lo: "1 \<le> \<bar>e\<bar>" and hi: "\<bar>e\<bar> \<le> 100"
  shows "\<bar>drift_d e - 70 * \<bar>e\<bar>\<bar> \<le> 1 / 2 ^ 24"
proof -
  note u = unit_roundoff_pos unit_roundoff_small
  define r where "r = fl (7000 * fl (1 + fl (e / 100)))"
  define C where "C = cos (15 / 4 :: real)"
  define S where "S = sin (15 / 4 :: real)"
  define dx where "dx = fl (fl (7000 * fl C) - fl (r * fl C))"
  define dy where "dy = fl (fl (7000 * fl S) - fl (r * fl S))"
  define sx where "sx = fl (dx\<^sup>2)"
  define sy where "sy = fl (dy\<^sup>2)"
  define sm where "sm = fl (sx + sy)"
  define T where "T = 4900 * e\<^sup>2"
  have drift: "drift_d e = fl (sqrt sm)"
    by (simp only: drift_d_eq fl_exact_15_4 sm_def sx_def sy_def dx_def dy_def r_def C_def S_def)
  have C: "\<bar>C\<bar> \<le> 1" and S: "\<bar>S\<bar> \<le> 1"
    by (simp_all add: C_def S_def)
  have dx: "\<bar>dx - (- 70 * e * C)\<bar> \<le> 262144 * unit_roundoff"
    unfolding dx_def r_def by (rule coordinate_error(2) [OF hi C])
  have dy: "\<bar>dy - (- 70 * e * S)\<bar> \<le> 262144 * unit_roundoff"
    unfolding dy_def r_def by (rule coordinate_error(2) [OF hi S])
  have e70: "\<bar>70 * e\<bar> \<le> 7000"
    using hi by simp
  have "\<bar>70 * e * C\<bar> \<le> 7000 * 1"
    using e70 C by (rule abs_mult_le)
  moreover have "\<bar>70 * e * S\<bar> \<le> 7000 * 1"
    using e70 S by (rule abs_mult_le)
  ultimately have DX: "\<bar>- 70 * e * C\<bar> \<le> 7000" and DY: "\<bar>- 70 * e * S\<bar> \<le> 7000"
    by simp_all
  have sx: "\<bar>sx - (- 70 * e * C)\<^sup>2\<bar> \<le> 4362076160 * unit_roundoff" and sx_le: "\<bar>sx\<bar> \<le> 67108865"
    unfolding sx_def using square_error [OF dx DX] by blast+
  have sy: "\<bar>sy - (- 70 * e * S)\<^sup>2\<bar> \<le> 4362076160 * unit_roundoff" and sy_le: "\<bar>sy\<bar> \<le> 67108865"
    unfolding sy_def using square_error [OF dy DY] by blast+
  have "\<bar>sx + sy\<bar> \<le> 2 ^ 28"
    using sx_le sy_le by (auto simp: abs_le_iff)
  from fl_err_unit [OF this] have sm: "\<bar>sm - (sx + sy)\<bar> \<le> 268435456 * unit_roundoff"
    by (simp add: sm_def)
  have "(- 70 * e * C)\<^sup>2 + (- 70 * e * S)\<^sup>2 = 4900 * e\<^sup>2 * (S\<^sup>2 + C\<^sup>2)"
    by (simp add: power2_eq_square algebra_simps)
  also have "\<dots> = T"
    by (simp only: S_def C_def sin_cos_squared_add mult_1_right T_def)
  finally have T: "(- 70 * e * C)\<^sup>2 + (- 70 * e * S)\<^sup>2 = T" .
  define X where "X = (- 70 * e * C)\<^sup>2"
  define Y where "Y = (- 70 * e * S)\<^sup>2"
  have "\<bar>sx - X\<bar> \<le> 4362076160 * unit_roundoff" and "\<bar>sy - Y\<bar> \<le> 4362076160 * unit_roundoff"
    and "X + Y = T"
    using sx sy T by (simp_all only: X_def Y_def)
  with sm u have smT: "\<bar>sm - T\<bar> \<le> 17179869184 * unit_roundoff"
    by (auto simp: abs_le_iff)
  have "\<bar>1 :: real\<bar> \<le> \<bar>e\<bar>"
    using lo by simp
  then have "(1 :: real)\<^sup>2 \<le> e\<^sup>2"
    by (simp only: abs_le_square_iff)
  then have T_lo: "4900 \<le> T"
    by (simp add: T_def)
  have "\<bar>e\<bar> \<le> \<bar>100 :: real\<bar>"
    using hi by simp
  then have "e\<^sup>2 \<le> (100 :: real)\<^sup>2"
    by (simp only: abs_le_square_iff)
  then have T_hi: "T \<le> 49000000"
    by (simp add: T_def)
  have sqrtT: "sqrt T = 70 * \<bar>e\<bar>"
  proof -
    have "T = (70 * e)\<^sup>2"
      by (simp add: T_def power_mult_distrib)
    then have "sqrt T = \<bar>70 * e\<bar>"
      by (simp only: real_sqrt_abs)
    then show ?thesis
      by (simp add: abs_mult)
  qed
  have sqrtT_lo: "70 \<le> sqrt T" and sqrtT_hi: "sqrt T \<le> 7000"
    using lo hi by (simp_all add: sqrtT)
  have sm_pos: "0 \<le> sm"
    using smT T_lo u by (auto simp: abs_le_iff)
  have T_pos: "0 < T"
    using T_lo by simp
  have "\<bar>sqrt sm - sqrt T\<bar> \<le> \<bar>sm - T\<bar> / sqrt T"
    using sm_pos T_pos by (rule sqrt_diff_le)
  also have "\<dots> \<le> \<bar>sm - T\<bar> / 70"
    using sqrtT_lo T_pos by (intro divide_left_mono) simp_all
  also have "\<dots> \<le> 17179869184 * unit_roundoff / 70"
    using smT by (simp add: divide_right_mono)
  finally have root: "\<bar>sqrt sm - sqrt T\<bar> \<le> 268435456 * unit_roundoff"
    using u by simp
  have "\<bar>sqrt sm\<bar> \<le> 2 ^ 13"
    using root sqrtT_hi sqrtT_lo u by (auto simp: abs_le_iff)
  from fl_err_unit [OF this] have "\<bar>fl (sqrt sm) - sqrt sm\<bar> \<le> 8192 * unit_roundoff"
    by simp
  with root u have "\<bar>fl (sqrt sm) - sqrt T\<bar> \<le> 536870912 * unit_roundoff"
    by (auto simp: abs_le_iff)
  then show ?thesis
    by (simp add: drift sqrtT unit_roundoff_def)
qed

lemma ghost_d_near_scaled:
  assumes e: "\<bar>e\<bar> \<le> 100" and i: "i < 100"
  shows "\<bar>path_x (paths_e_d e) ! i - (1 + e / 100) * path_x (paths_t_d e) ! i\<bar> \<le> 1 / 2 ^ 34"
    and "\<bar>path_y (paths_e_d e) ! i - (1 + e / 100) * path_y (paths_t_d e) ! i\<bar> \<le> 1 / 2 ^ 34"
    and "\<bar>snap2 (snap_d e) - (1 + e / 100) * snap0 (snap_d e)\<bar> \<le> 1 / 2 ^ 34"
    and "\<bar>snap3 (snap_d e) - (1 + e / 100) * snap1 (snap_d e)\<bar> \<le> 1 / 2 ^ 34"
proof -
  have c: "\<bar>cos x\<bar> \<le> 1" and s: "\<bar>sin x\<bar> \<le> 1" for x :: real
    by simp_all
  have k: "524288 * unit_roundoff = 1 / 2 ^ 34"
    by (simp add: unit_roundoff_def)
  show "\<bar>path_x (paths_e_d e) ! i - (1 + e / 100) * path_x (paths_t_d e) ! i\<bar> \<le> 1 / 2 ^ 34"
    using coordinate_error(1) [OF e c, of "fl (0.5 * linspace_d 0 10 100 ! i)"] i
    by (simp add: paths_t_d_eq paths_e_d_eq length_linspace_d k)
  show "\<bar>path_y (paths_e_d e) ! i - (1 + e / 100) * path_y (paths_t_d e) ! i\<bar> \<le> 1 / 2 ^ 34"
    using coordinate_error(1) [OF e s, of "fl (0.5 * linspace_d 0 10 100 ! i)"] i
    by (simp add: paths_t_d_eq paths_e_d_eq length_linspace_d k)
  show "\<bar>snap2 (snap_d e) - (1 + e / 100) * snap0 (snap_d e)\<bar> \<le> 1 / 2 ^ 34"
    using coordinate_error(1) [OF e c, of "fl (0.5 * 7.5)"]
    by (simp add: snap_d_eq k)
  show "\<bar>snap3 (snap_d e) - (1 + e / 100) * snap1 (snap_d e)\<bar> \<le> 1 / 2 ^ 34"
    using coordinate_error(1) [OF e s, of "fl (0.5 * 7.5)"]
    by (simp add: snap_d_eq k)
qed

subsection \<open>Inputs that rounding makes vanish\<close>

text \<open>
  For \<open>\<bar>e\<bar> \<le> 2 ^ (- 50)\<close> the sum \<open>1 + e / 100\<close> rounds to 1: the ghost radius is
  7000, the two snapshot positions are the same doubles, and the drift is 0.
\<close>

lemma fl_one_plus_tiny:
  assumes "\<bar>q\<bar> \<le> 1 / 2 ^ 55"
  shows "fl (1 + q) = 1"
proof (cases "0 \<le> q")
  case True
  with assms have "0 \<le> q" and "q \<le> 1 / 2 ^ 55"
    by simp_all
  then show ?thesis
    using fl_eqI [of 0 "1 + q" "2 ^ 52"] by (simp add: powr_neg_numeral abs_less_iff field_simps)
next
  case False
  with assms have "q < 0" and "- (1 / 2 ^ 55) \<le> q"
    by (auto simp: abs_le_iff)
  then show ?thesis
    using fl_eqI [of "- 1" "1 + q" "2 ^ 53"] by (simp add: powr_neg_numeral abs_less_iff field_simps)
qed

lemma fl_7000: "fl (7000 * 1) = 7000"
  using fl_eqI [of 12 "7000 * 1" "7000 * 2 ^ 40"] by (simp add: powr_neg_numeral)

lemma radius_tiny:
  assumes "\<bar>e\<bar> \<le> 1 / 2 ^ 50"
  shows "fl (7000 * fl (1 + fl (e / 100))) = 7000"
proof -
  from assms have e: "e \<le> 1 / 2 ^ 50 \<and> - e \<le> 1 / 2 ^ 50"
    unfolding abs_le_iff .
  then have "e / 100 \<le> 1 / 2 ^ 56 \<and> - (e / 100) \<le> 1 / 2 ^ 56"
    by simp
  then have "\<bar>e / 100\<bar> \<le> 1 / 2 ^ 56"
    unfolding abs_le_iff .
  then have "\<bar>e / 100\<bar> \<le> 2 powr of_int (- 56)"
    by (simp add: powr_neg_numeral)
  then have "\<bar>fl (e / 100) - e / 100\<bar> \<le> 2 powr of_int (- 56 - 53)"
    by (rule fl_error_bound) simp
  then have "\<bar>fl (e / 100) - e / 100\<bar> \<le> 1 / 2 ^ 109"
    by (simp add: powr_neg_numeral)
  then have "fl (e / 100) - e / 100 \<le> 1 / 2 ^ 109 \<and> - (fl (e / 100) - e / 100) \<le> 1 / 2 ^ 109"
    unfolding abs_le_iff .
  with e have "fl (e / 100) \<le> 1 / 2 ^ 55 \<and> - fl (e / 100) \<le> 1 / 2 ^ 55"
    by simp
  then have "\<bar>fl (e / 100)\<bar> \<le> 1 / 2 ^ 55"
    unfolding abs_le_iff .
  then have "fl (1 + fl (e / 100)) = 1"
    by (rule fl_one_plus_tiny)
  then show ?thesis
    by (simp only: fl_7000)
qed

lemma drift_d_tiny:
  assumes "\<bar>e\<bar> \<le> 1 / 2 ^ 50"
  shows "drift_d e = 0"
  by (simp add: drift_d_eq radius_tiny [OF assms] fl_zero)

lemma drift_d_zero: "drift_d 0 = 0"
  by (rule drift_d_tiny) simp

subsection \<open>The doubles nearest to cos 3.75 and sin 3.75\<close>

text \<open>
  The Taylor polynomials of degree 35 at \<open>15 / 4\<close> are within \<open>2 ^ (- 69)\<close> of the
  cosine and the sine, which settles their roundings.
\<close>

lemma cos_taylor_bound:
  "\<bar>cos x - (\<Sum>m<n. cos_coeff m * x ^ m)\<bar> \<le> \<bar>x\<bar> ^ n / fact n"
proof -
  obtain t where "cos x = (\<Sum>m<n. cos_coeff m * x ^ m) + (cos (t + 1 / 2 * real n * pi) / fact n) * x ^ n"
    using Maclaurin_cos_expansion [of x n] by blast
  then have "\<bar>cos x - (\<Sum>m<n. cos_coeff m * x ^ m)\<bar> = \<bar>cos (t + 1 / 2 * real n * pi)\<bar> * (\<bar>x\<bar> ^ n / fact n)"
    by (simp add: abs_mult power_abs)
  also have "\<dots> \<le> 1 * (\<bar>x\<bar> ^ n / fact n)"
    by (intro mult_right_mono) simp_all
  finally show ?thesis
    by simp
qed

lemma sin_taylor_bound:
  "\<bar>sin x - (\<Sum>m<n. sin_coeff m * x ^ m)\<bar> \<le> \<bar>x\<bar> ^ n / fact n"
  using Maclaurin_sin_bound [of x n] by (simp add: field_simps)

lemma cos_15_4_sum:
  "(\<Sum>m<36. cos_coeff m * (15 / 4 :: real) ^ m)
    = - (63783076101874160288379865758578207760731900527 / 77731215336661736027591005131452846400233013248)"
  by (simp add: lessThan_nat_numeral cos_coeff_def fact_numeral power_divide)

lemma sin_15_4_sum:
  "(\<Sum>m<36. sin_coeff m * (15 / 4 :: real) ^ m)
    = - (1243988366467489417404472240289154133197047171085 / 2176474029426528608772548143680679699206524370944)"
  by (simp add: lessThan_nat_numeral sin_coeff_def fact_numeral power_divide)

lemma cos_15_4_bounds:
  "- (7568324231065230013 / 2 ^ 63) < cos (15 / 4 :: real)
    \<and> cos (15 / 4 :: real) < - (15136648462130460025 / 2 ^ 64)"
proof -
  from cos_taylor_bound [of "15 / 4" 36]
  have "\<bar>cos (15 / 4 :: real) - - (63783076101874160288379865758578207760731900527 / 77731215336661736027591005131452846400233013248)\<bar> \<le> \<bar>15 / 4\<bar> ^ 36 / fact 36"
    by (simp only: cos_15_4_sum)
  moreover have "\<bar>15 / 4 :: real\<bar> ^ 36 / fact 36 \<le> 1 / 2 ^ 69"
    by (simp add: fact_numeral power_divide)
  ultimately have "\<bar>cos (15 / 4 :: real) - - (63783076101874160288379865758578207760731900527 / 77731215336661736027591005131452846400233013248)\<bar> \<le> 1 / 2 ^ 69"
    by (rule order_trans)
  then show ?thesis
    by (simp only: abs_le_iff) (simp add: field_simps)
qed

lemma fl_cos_15_4: "fl (cos (15 / 4)) = - (7390941631899639 / 2 ^ 53)"
  using fl_eqI [of "- 1" "cos (15 / 4)" "- 7390941631899639"] cos_15_4_bounds
  by (simp add: powr_neg_numeral abs_if)

lemma sin_15_4_bounds:
  "- (1317930671158993257 / 2 ^ 61) < sin (15 / 4 :: real)
    \<and> sin (15 / 4 :: real) < - (10543445369271946055 / 2 ^ 64)"
proof -
  from sin_taylor_bound [of "15 / 4" 36]
  have "\<bar>sin (15 / 4 :: real) - - (1243988366467489417404472240289154133197047171085 / 2176474029426528608772548143680679699206524370944)\<bar> \<le> \<bar>15 / 4\<bar> ^ 36 / fact 36"
    by (simp only: sin_15_4_sum)
  moreover have "\<bar>15 / 4 :: real\<bar> ^ 36 / fact 36 \<le> 1 / 2 ^ 69"
    by (simp add: fact_numeral power_divide)
  ultimately have "\<bar>sin (15 / 4 :: real) - - (1243988366467489417404472240289154133197047171085 / 2176474029426528608772548143680679699206524370944)\<bar> \<le> 1 / 2 ^ 69"
    by (rule order_trans)
  then show ?thesis
    by (simp only: abs_le_iff) (simp add: field_simps)
qed

lemma fl_sin_15_4: "fl (sin (15 / 4)) = - (5148166684214817 / 2 ^ 53)"
  using fl_eqI [of "- 1" "sin (15 / 4)" "- 5148166684214817"] sin_15_4_bounds
  by (simp add: powr_neg_numeral abs_if)

subsection \<open>The rounded engine at 20, 5 and - 5\<close>

text \<open>
  Each operation of the snapshot at \<open>errorPercent = 20\<close>, and of the snapshot and the
  drift at \<open>5\<close> and \<open>- 5\<close>, with its rounded result. The drift the program shows is
  \<open>350.00000000000017\<close> at \<open>5\<close> and \<open>349.99999999999994\<close> at \<open>- 5\<close>.
\<close>

lemma ev_snap_xt: "fl (7000 * - (7390941631899639 / 2 ^ 53)) = - (3157750941363371 / 2 ^ 39)"
  using fl_eqI [of "12" "7000 * - (7390941631899639 / 2 ^ 53)" "- 6315501882726742"]
  by (simp add: powr_neg_numeral power_divide)

lemma ev_snap_yt: "fl (7000 * - (5148166684214817 / 2 ^ 53)) = - (8798136423218681 / 2 ^ 41)"
  using fl_eqI [of "11" "7000 * - (5148166684214817 / 2 ^ 53)" "- 8798136423218681"]
  by (simp add: powr_neg_numeral power_divide)

lemma ev_q_20: "fl (20 / 100) = 3602879701896397 / 2 ^ 54"
  using fl_eqI [of "- 3" "20 / 100" "7205759403792794"]
  by (simp add: powr_neg_numeral power_divide)

lemma ev_k_20: "fl (1 + 3602879701896397 / 2 ^ 54) = 5404319552844595 / 2 ^ 52"
  using fl_eqI [of "0" "1 + 3602879701896397 / 2 ^ 54" "5404319552844595"]
  by (simp add: powr_neg_numeral power_divide)

lemma ev_r_20: "fl (7000 * (5404319552844595 / 2 ^ 52)) = 8400"
  using fl_eqI [of "13" "7000 * (5404319552844595 / 2 ^ 52)" "4617948836659200"]
  by (simp add: powr_neg_numeral power_divide)

lemma ev_snap_xe_20: "fl (8400 * - (7390941631899639 / 2 ^ 53)) = - (7578602259272091 / 2 ^ 40)"
  using fl_eqI [of "12" "8400 * - (7390941631899639 / 2 ^ 53)" "- 7578602259272091"]
  by (simp add: powr_neg_numeral power_divide)

lemma ev_snap_ye_20: "fl (8400 * - (5148166684214817 / 2 ^ 53)) = - (5278881853931209 / 2 ^ 40)"
  using fl_eqI [of "12" "8400 * - (5148166684214817 / 2 ^ 53)" "- 5278881853931209"]
  by (simp add: powr_neg_numeral power_divide)

lemma ev_scaled_xt_20:
  "fl (5404319552844595 / 2 ^ 52 * - (3157750941363371 / 2 ^ 39)) = - (3789301129636045 / 2 ^ 39)"
  using fl_eqI [of "12" "5404319552844595 / 2 ^ 52 * - (3157750941363371 / 2 ^ 39)" "- 7578602259272090"]
  by (simp add: powr_neg_numeral power_divide)

lemma ev_scaled_yt_20:
  "fl (5404319552844595 / 2 ^ 52 * - (8798136423218681 / 2 ^ 41)) = - (659860231741401 / 2 ^ 37)"
  using fl_eqI [of "12" "5404319552844595 / 2 ^ 52 * - (8798136423218681 / 2 ^ 41)" "- 5278881853931208"]
  by (simp add: powr_neg_numeral power_divide)

lemma ev_q_5: "fl (5 / 100) = 3602879701896397 / 2 ^ 56"
  using fl_eqI [of "- 5" "5 / 100" "7205759403792794"]
  by (simp add: powr_neg_numeral power_divide)

lemma ev_k_5: "fl (1 + 3602879701896397 / 2 ^ 56) = 4728779608739021 / 2 ^ 52"
  using fl_eqI [of "0" "1 + 3602879701896397 / 2 ^ 56" "4728779608739021"]
  by (simp add: powr_neg_numeral power_divide)

lemma ev_r_5: "fl (7000 * (4728779608739021 / 2 ^ 52)) = 7350"
  using fl_eqI [of "12" "7000 * (4728779608739021 / 2 ^ 52)" "8081410464153600"]
  by (simp add: powr_neg_numeral power_divide)

lemma ev_snap_xe_5: "fl (7350 * - (7390941631899639 / 2 ^ 53)) = - (6631276976863079 / 2 ^ 40)"
  using fl_eqI [of "12" "7350 * - (7390941631899639 / 2 ^ 53)" "- 6631276976863079"]
  by (simp add: powr_neg_numeral power_divide)

lemma ev_snap_ye_5: "fl (7350 * - (5148166684214817 / 2 ^ 53)) = - (288688851386863 / 2 ^ 36)"
  using fl_eqI [of "12" "7350 * - (5148166684214817 / 2 ^ 53)" "- 4619021622189808"]
  by (simp add: powr_neg_numeral power_divide)

lemma ev_dx_5:
  "fl (- (3157750941363371 / 2 ^ 39) - - (6631276976863079 / 2 ^ 40)) = 315775094136337 / 2 ^ 40"
  using fl_eqI [of "8" "- (3157750941363371 / 2 ^ 39) - - (6631276976863079 / 2 ^ 40)" "5052401506181392"]
  by (simp add: powr_neg_numeral power_divide)

lemma ev_dy_5:
  "fl (- (8798136423218681 / 2 ^ 41) - - (288688851386863 / 2 ^ 36)) = 439906821160935 / 2 ^ 41"
  using fl_eqI [of "7" "- (8798136423218681 / 2 ^ 41) - - (288688851386863 / 2 ^ 36)" "7038509138574960"]
  by (simp add: powr_neg_numeral power_divide)

lemma ev_sx_5: "fl ((315775094136337 / 2 ^ 40)\<^sup>2) = 2834039778372599 / 2 ^ 35"
  using fl_eqI [of "16" "(315775094136337 / 2 ^ 40)\<^sup>2" "5668079556745198"]
  by (simp add: powr_neg_numeral power_divide)

lemma ev_sy_5: "fl ((439906821160935 / 2 ^ 41)\<^sup>2) = 1375028171707405 / 2 ^ 35"
  using fl_eqI [of "15" "(439906821160935 / 2 ^ 41)\<^sup>2" "5500112686829620"]
  by (simp add: powr_neg_numeral power_divide)

lemma ev_sum_5:
  "fl (2834039778372599 / 2 ^ 35 + 1375028171707405 / 2 ^ 35) = 1052266987520001 / 2 ^ 33"
  using fl_eqI [of "16" "2834039778372599 / 2 ^ 35 + 1375028171707405 / 2 ^ 35" "8418135900160008"]
  by (simp add: powr_neg_numeral power_divide)

lemma ev_drift_5: "fl (sqrt (1052266987520001 / 2 ^ 33)) = 6157265115545603 / 2 ^ 44"
proof -
  have "12314530231091205 / 2 ^ 45 < sqrt (1052266987520001 / 2 ^ 33)"
    by (rule real_less_rsqrt) (simp add: power_divide)
  moreover have "sqrt (1052266987520001 / 2 ^ 33) < 12314530231091207 / 2 ^ 45"
    by (rule real_less_lsqrt) (simp_all add: power_divide)
  ultimately show ?thesis
    using fl_eq_boundsI [of "12314530231091205 / 2 ^ 45" "sqrt (1052266987520001 / 2 ^ 33)" "12314530231091207 / 2 ^ 45" "8" "6157265115545603"]
    by (simp add: powr_neg_numeral)
qed

lemma ev_q_m5: "fl (- 5 / 100) = - (3602879701896397 / 2 ^ 56)"
  using fl_eqI [of "- 5" "- 5 / 100" "- 7205759403792794"]
  by (simp add: powr_neg_numeral power_divide)

lemma ev_k_m5: "fl (1 + - (3602879701896397 / 2 ^ 56)) = 4278419646001971 / 2 ^ 52"
  using fl_eqI [of "- 1" "1 + - (3602879701896397 / 2 ^ 56)" "8556839292003942"]
  by (simp add: powr_neg_numeral power_divide)

lemma ev_r_m5: "fl (7000 * (4278419646001971 / 2 ^ 52)) = 6650"
  using fl_eqI [of "12" "7000 * (4278419646001971 / 2 ^ 52)" "7311752324710400"]
  by (simp add: powr_neg_numeral power_divide)

lemma ev_snap_xe_m5: "fl (6650 * - (7390941631899639 / 2 ^ 53)) = - (5999726788590405 / 2 ^ 40)"
  using fl_eqI [of "12" "6650 * - (7390941631899639 / 2 ^ 53)" "- 5999726788590405"]
  by (simp add: powr_neg_numeral power_divide)

lemma ev_snap_ye_m5: "fl (6650 * - (5148166684214817 / 2 ^ 53)) = - (8358229602057747 / 2 ^ 41)"
  using fl_eqI [of "11" "6650 * - (5148166684214817 / 2 ^ 53)" "- 8358229602057747"]
  by (simp add: powr_neg_numeral power_divide)

lemma ev_dx_m5:
  "fl (- (3157750941363371 / 2 ^ 39) - - (5999726788590405 / 2 ^ 40))
    = - (315775094136337 / 2 ^ 40)"
  using fl_eqI [of "8" "- (3157750941363371 / 2 ^ 39) - - (5999726788590405 / 2 ^ 40)" "- 5052401506181392"]
  by (simp add: powr_neg_numeral power_divide)

lemma ev_dy_m5:
  "fl (- (8798136423218681 / 2 ^ 41) - - (8358229602057747 / 2 ^ 41))
    = - (219953410580467 / 2 ^ 40)"
  using fl_eqI [of "7" "- (8798136423218681 / 2 ^ 41) - - (8358229602057747 / 2 ^ 41)" "- 7038509138574944"]
  by (simp add: powr_neg_numeral power_divide)

lemma ev_sx_m5: "fl ((- (315775094136337 / 2 ^ 40))\<^sup>2) = 2834039778372599 / 2 ^ 35"
  using fl_eqI [of "16" "(- (315775094136337 / 2 ^ 40))\<^sup>2" "5668079556745198"]
  by (simp add: powr_neg_numeral power_divide)

lemma ev_sy_m5: "fl ((- (219953410580467 / 2 ^ 40))\<^sup>2) = 5500112686829595 / 2 ^ 37"
  using fl_eqI [of "15" "(- (219953410580467 / 2 ^ 40))\<^sup>2" "5500112686829595"]
  by (simp add: powr_neg_numeral power_divide)

lemma ev_sum_m5:
  "fl (2834039778372599 / 2 ^ 35 + 5500112686829595 / 2 ^ 37) = 2104533975039999 / 2 ^ 34"
  using fl_eq_tieI [of "16" "2834039778372599 / 2 ^ 35 + 5500112686829595 / 2 ^ 37" "8418135900159996"]
  by (simp add: powr_neg_numeral power_divide)

lemma ev_drift_m5: "fl (sqrt (2104533975039999 / 2 ^ 34)) = 6157265115545599 / 2 ^ 44"
proof -
  have "12314530231091197 / 2 ^ 45 < sqrt (2104533975039999 / 2 ^ 34)"
    by (rule real_less_rsqrt) (simp add: power_divide)
  moreover have "sqrt (2104533975039999 / 2 ^ 34) < 12314530231091199 / 2 ^ 45"
    by (rule real_less_lsqrt) (simp_all add: power_divide)
  ultimately show ?thesis
    using fl_eq_boundsI [of "12314530231091197 / 2 ^ 45" "sqrt (2104533975039999 / 2 ^ 34)" "12314530231091199 / 2 ^ 45" "8" "6157265115545599"]
    by (simp add: powr_neg_numeral)
qed

lemma snap_d_20:
  "snap_d 20 = (- (3157750941363371 / 2 ^ 39), - (8798136423218681 / 2 ^ 41), - (7578602259272091 / 2 ^ 40), - (5278881853931209 / 2 ^ 40), 8400)"
  by (simp only: snap_d_eq fl_exact_15_4 fl_cos_15_4 fl_sin_15_4 ev_snap_xt ev_snap_yt ev_q_20 ev_k_20 ev_r_20 ev_snap_xe_20 ev_snap_ye_20)

lemma drift_d_5: "drift_d 5 = 6157265115545603 / 2 ^ 44"
  by (simp only: drift_d_eq fl_exact_15_4 fl_cos_15_4 fl_sin_15_4 ev_snap_xt ev_snap_yt ev_q_5 ev_k_5 ev_r_5 ev_snap_xe_5 ev_snap_ye_5 ev_dx_5 ev_dy_5 ev_sx_5 ev_sy_5 ev_sum_5 ev_drift_5)

lemma drift_d_minus_5: "drift_d (- 5) = 6157265115545599 / 2 ^ 44"
  by (simp only: drift_d_eq fl_exact_15_4 fl_cos_15_4 fl_sin_15_4 ev_snap_xt ev_snap_yt ev_q_m5 ev_k_m5 ev_r_m5 ev_snap_xe_m5 ev_snap_ye_m5 ev_dx_m5 ev_dy_m5 ev_sx_m5 ev_sy_m5 ev_sum_m5 ev_drift_m5)

lemma snap_d_5:
  "snap_d 5 = (- (3157750941363371 / 2 ^ 39), - (8798136423218681 / 2 ^ 41), - (6631276976863079 / 2 ^ 40), - (288688851386863 / 2 ^ 36), 7350)"
  by (simp only: snap_d_eq fl_exact_15_4 fl_cos_15_4 fl_sin_15_4 ev_snap_xt ev_snap_yt ev_q_5 ev_k_5 ev_r_5 ev_snap_xe_5 ev_snap_ye_5)

lemma scenario_five_percent_doubles:
  "snap4 (snap_d 5) = 7350 \<and> drift_d 5 = 6157265115545603 / 2 ^ 44 \<and> \<bar>drift_d 5 - 350\<bar> < 0.05
   \<and> drift_delta_d 5 = ''OK''"
  by (simp add: snap_d_5 drift_d_5 drift_delta_d_def)

subsection \<open>Symmetry and monotonicity of the drift\<close>

text \<open>
  Claim C8, as amended: in the doubles of the program, for inputs with
  \<open>1 \<le> \<bar>e\<bar> \<le> 100\<close>, the drift is within \<open>2 ^ (- 24)\<close> of \<open>70 \<bar>e\<bar>\<close>; so the drifts at
  \<open>- e\<close> and at \<open>e\<close> differ by at most \<open>2 ^ (- 23)\<close>, the drift at \<open>e1\<close> is strictly below
  the drift at \<open>e2\<close> whenever \<open>\<bar>e1\<bar> + 10 ^ (- 8) \<le> \<bar>e2\<bar>\<close> (so for any two integer inputs
  of different magnitude), and \<open>drift 20 > drift 10 > drift 0 = 0\<close>.
\<close>

theorem drift_d_symmetric_monotone_up_to_rounding:
  assumes "1 \<le> \<bar>e1\<bar>" and "\<bar>e1\<bar> \<le> 100" and "1 \<le> \<bar>e2\<bar>" and "\<bar>e2\<bar> \<le> 100"
  shows "\<bar>drift_d e1 - 70 * \<bar>e1\<bar>\<bar> \<le> 1 / 2 ^ 24
       \<and> \<bar>drift_d (- e1) - drift_d e1\<bar> \<le> 1 / 2 ^ 23
       \<and> (\<bar>e1\<bar> + 1 / 10 ^ 8 \<le> \<bar>e2\<bar> \<longrightarrow> drift_d e1 < drift_d e2)
       \<and> drift_d 10 < drift_d 20 \<and> drift_d 0 < drift_d 10 \<and> drift_d 0 = 0"
proof -
  define t :: real where "t = 1 / 2 ^ 24"
  have t: "t < 1 / 10 ^ 7" "0 < t"
    by (simp_all add: t_def)
  have near: "\<bar>drift_d e - 70 * \<bar>e\<bar>\<bar> \<le> t" if "1 \<le> \<bar>e\<bar>" and "\<bar>e\<bar> \<le> 100" for e
    using drift_d_error [OF that] by (simp only: t_def)
  have a: "\<bar>drift_d e1 - 70 * \<bar>e1\<bar>\<bar> \<le> t"
    using assms(1,2) by (rule near)
  have b: "\<bar>drift_d (- e1) - 70 * \<bar>e1\<bar>\<bar> \<le> t"
    using near [of "- e1"] assms(1,2) by simp
  have c: "\<bar>drift_d e2 - 70 * \<bar>e2\<bar>\<bar> \<le> t"
    using assms(3,4) by (rule near)
  have d10: "\<bar>drift_d 10 - 700\<bar> \<le> t" and d20: "\<bar>drift_d 20 - 1400\<bar> \<le> t"
    using near [of 10] near [of 20] by simp_all
  from a b have sym: "\<bar>drift_d (- e1) - drift_d e1\<bar> \<le> 2 * t"
    by (auto simp: abs_le_iff)
  from a c t have mono: "\<bar>e1\<bar> + 1 / 10 ^ 8 \<le> \<bar>e2\<bar> \<longrightarrow> drift_d e1 < drift_d e2"
    by (auto simp: abs_le_iff)
  from d10 d20 t have chain: "drift_d 10 < drift_d 20" "0 < drift_d 10"
    by (auto simp: abs_le_iff)
  from a sym mono chain show ?thesis
    by (simp add: t_def drift_d_zero)
qed

text \<open>At the inputs 5 and 6.\<close>

theorem drift_d_symmetric_monotone_up_to_rounding_witness:
  "1 \<le> \<bar>5 :: real\<bar> \<and> \<bar>5 :: real\<bar> \<le> 100 \<and> 1 \<le> \<bar>6 :: real\<bar> \<and> \<bar>6 :: real\<bar> \<le> 100
   \<and> \<bar>5 :: real\<bar> + 1 / 10 ^ 8 \<le> \<bar>6\<bar>
   \<and> \<bar>drift_d 5 - 350\<bar> \<le> 1 / 2 ^ 24
   \<and> \<bar>drift_d (- 5) - drift_d 5\<bar> \<le> 1 / 2 ^ 23
   \<and> drift_d 5 < drift_d 6"
  using drift_d_symmetric_monotone_up_to_rounding [of 5 6] by simp

text \<open>
  Claim C8 as the specification states it, with the drift at \<open>- e\<close> equal to the drift
  at \<open>e\<close> and the drift strictly increasing in \<open>\<bar>e\<bar>\<close>, does not hold of the doubles: the
  drifts at \<open>- 5\<close> and \<open>5\<close> differ, and the drifts at \<open>2 ^ (- 70)\<close> and at the larger
  \<open>2 ^ (- 69)\<close> are both 0.
\<close>

theorem drift_d_not_symmetric_nor_strict:
  "drift_d (- 5) \<noteq> drift_d 5 \<and> \<not> drift_d (1 / 2 ^ 70) < drift_d (1 / 2 ^ 69)"
proof -
  have "drift_d (1 / 2 ^ 70) = 0" and "drift_d (1 / 2 ^ 69) = 0"
    by (rule drift_d_tiny, simp)+
  then show ?thesis
    by (simp add: drift_d_5 drift_d_minus_5)
qed

subsection \<open>The ghost path as a scaling of the true path\<close>

text \<open>
  Claim C10, as amended: in the doubles of the program, for every input with
  \<open>\<bar>e\<bar> \<le> 100\<close> and every index \<open>i\<close> below 100, the \<open>x\<close> and \<open>y\<close> of the ghost path at
  \<open>i\<close> are within \<open>2 ^ (- 34)\<close> of \<open>1 + e / 100\<close> times those of the true path, and so
  is the ghost position of the snapshot of \<open>1 + e / 100\<close> times its true position.
\<close>

theorem ghost_d_scaled_up_to_rounding:
  assumes "\<bar>e\<bar> \<le> 100" and "i < 100"
  shows "\<bar>path_x (paths_e_d e) ! i - (1 + e / 100) * path_x (paths_t_d e) ! i\<bar> \<le> 1 / 2 ^ 34
       \<and> \<bar>path_y (paths_e_d e) ! i - (1 + e / 100) * path_y (paths_t_d e) ! i\<bar> \<le> 1 / 2 ^ 34
       \<and> \<bar>snap2 (snap_d e) - (1 + e / 100) * snap0 (snap_d e)\<bar> \<le> 1 / 2 ^ 34
       \<and> \<bar>snap3 (snap_d e) - (1 + e / 100) * snap1 (snap_d e)\<bar> \<le> 1 / 2 ^ 34"
  using ghost_d_near_scaled [OF assms] by simp

text \<open>At \<open>errorPercent = 20\<close> and the sample 42.\<close>

theorem ghost_d_scaled_up_to_rounding_witness:
  "\<bar>20 :: real\<bar> \<le> 100 \<and> (42 :: nat) < 100
   \<and> \<bar>path_x (paths_e_d 20) ! 42 - (1 + 20 / 100) * path_x (paths_t_d 20) ! 42\<bar> \<le> 1 / 2 ^ 34
   \<and> \<bar>path_y (paths_e_d 20) ! 42 - (1 + 20 / 100) * path_y (paths_t_d 20) ! 42\<bar> \<le> 1 / 2 ^ 34
   \<and> \<bar>snap2 (snap_d 20) - (1 + 20 / 100) * snap0 (snap_d 20)\<bar> \<le> 1 / 2 ^ 34
   \<and> \<bar>snap3 (snap_d 20) - (1 + 20 / 100) * snap1 (snap_d 20)\<bar> \<le> 1 / 2 ^ 34"
  using ghost_d_scaled_up_to_rounding [of 20 42] by simp

text \<open>
  Claim C10 as the specification states it, with exact equality, does not hold of the
  doubles: at \<open>errorPercent = 20\<close> the ghost position of the snapshot,
  \<open>(-6892.698601652311, -4801.115077435687)\<close>, is neither the real product of
  \<open>1 + 20 / 100\<close> with the true position nor that product as the doubles compute it,
  \<open>(-6892.69860165231, -4801.1150774356865)\<close>.
\<close>

theorem ghost_snapshot_d_not_scaled:
  "snap2 (snap_d 20) \<noteq> (1 + 20 / 100) * snap0 (snap_d 20)
   \<and> snap2 (snap_d 20) \<noteq> fl (fl (1 + fl (20 / 100)) * snap0 (snap_d 20))
   \<and> snap3 (snap_d 20) \<noteq> (1 + 20 / 100) * snap1 (snap_d 20)
   \<and> snap3 (snap_d 20) \<noteq> fl (fl (1 + fl (20 / 100)) * snap1 (snap_d 20))"
proof -
  have "fl (fl (1 + fl (20 / 100)) * snap0 (snap_d 20)) = - (3789301129636045 / 2 ^ 39)"
    by (simp only: snap_d_20 snap0.simps ev_q_20 ev_k_20 ev_scaled_xt_20)
  moreover have "fl (fl (1 + fl (20 / 100)) * snap1 (snap_d 20)) = - (659860231741401 / 2 ^ 37)"
    by (simp only: snap_d_20 snap1.simps ev_q_20 ev_k_20 ev_scaled_yt_20)
  ultimately show ?thesis
    by (simp add: snap_d_20)
qed

end
